theory Spec2Isabelle
  imports Complex_Main "HOL-Library.Sublist" "HOL-Library.Word"
begin

section \<open>AeroSense: the dashboard store and the city map store\<close>

text \<open>
  The development embeds the state logic of two React components:
  \<^item> \<^verbatim>\<open>Dashboard\<close> (the selection coordinator, the search filter and the view
    transition logic), and
  \<^item> \<^verbatim>\<open>LeafletMap\<close> (the city data store with its fetch, fallback and polling).

  A component's \<^verbatim>\<open>useState\<close> cells form a record; an event handler is a function
  from the record to the updated record, the setters applied in the order of the source.
  A handler reads the cells of the state it is applied to, that is, the closure of the
  latest render.
\<close>

subsection \<open>Strings\<close>

text \<open>
  A JavaScript string is the list of its UTF-16 code units. \<open>units\<close> gives the code
  units of a literal written with ASCII characters.
\<close>

type_synonym codeUnit = "16 word"

type_synonym jsstring = "codeUnit list"

definition units :: "string \<Rightarrow> jsstring" where
  "units s = map of_char s"

text \<open>
  \<^verbatim>\<open>String.prototype.toLowerCase\<close> follows the case mappings of Unicode that do not
  depend on the language. The model writes them out for a repertoire: the code units
  below U+0100 (Basic Latin and Latin-1 Supplement) and the three forms of the Greek
  sigma, U+03A3 (capital), U+03C3 (small) and U+03C2 (small final).

  In the repertoire the upper-case letters are A to Z and U+00C0 to U+00DE without the
  multiplication sign U+00D7; each has its lower-case form 32 code units above.
\<close>

definition inRepertoire :: "codeUnit \<Rightarrow> bool" where
  "inRepertoire u = (u < 0x100 \<or> u = 0x3A3 \<or> u = 0x3C2 \<or> u = 0x3C3)"

definition isUpperLatin1 :: "codeUnit \<Rightarrow> bool" where
  "isUpperLatin1 u =
     ((0x41 \<le> u \<and> u \<le> 0x5A) \<or> (0xC0 \<le> u \<and> u \<le> 0xDE \<and> u \<noteq> 0xD7))"

text \<open>The mapping of a single code unit; the capital sigma maps to the small sigma.\<close>

definition lowerUnit :: "codeUnit \<Rightarrow> codeUnit" where
  "lowerUnit u =
     (if isUpperLatin1 u then u + 0x20
      else if u = 0x3A3 then 0x3C3
      else u)"

text \<open>
  The capital sigma has a second mapping, to the final sigma U+03C2, under the condition
  \<^verbatim>\<open>Final_Sigma\<close> of Unicode: before it stands a cased letter followed by any number
  of case-ignorable characters, and after it no sequence of case-ignorable characters
  followed by a cased letter. In the repertoire the cased letters are A to Z, a to z,
  U+00AA, U+00B5, U+00BA, the letters from U+00C0 to U+00FF (all but U+00D7 and U+00F7)
  and the three sigmas; the case-ignorable characters are the eleven listed.
\<close>

definition cased :: "codeUnit \<Rightarrow> bool" where
  "cased u =
     ((0x41 \<le> u \<and> u \<le> 0x5A) \<or> (0x61 \<le> u \<and> u \<le> 0x7A)
      \<or> u = 0xAA \<or> u = 0xB5 \<or> u = 0xBA
      \<or> (0xC0 \<le> u \<and> u \<le> 0xFF \<and> u \<noteq> 0xD7 \<and> u \<noteq> 0xF7)
      \<or> u = 0x3A3 \<or> u = 0x3C2 \<or> u = 0x3C3)"

definition caseIgnorable :: "codeUnit \<Rightarrow> bool" where
  "caseIgnorable u =
     (u = 0x27 \<or> u = 0x2E \<or> u = 0x3A \<or> u = 0x5E \<or> u = 0x60 \<or> u = 0xA8
      \<or> u = 0xAD \<or> u = 0xAF \<or> u = 0xB4 \<or> u = 0xB7 \<or> u = 0xB8)"

fun followedByCased :: "jsstring \<Rightarrow> bool" where
  "followedByCased [] = False"
| "followedByCased (u # us) = (if caseIgnorable u then followedByCased us else cased u)"

text \<open>
  \<open>lowerUnits\<close> maps a string of the repertoire from left to right; \<open>pre\<close> tells whether
  the part already passed ends in a cased letter followed by case-ignorable characters.
\<close>

fun lowerUnits :: "bool \<Rightarrow> jsstring \<Rightarrow> jsstring" where
  "lowerUnits pre [] = []"
| "lowerUnits pre (u # us) =
     (if u = 0x3A3 \<and> pre \<and> \<not> followedByCased us then 0x3C2 else lowerUnit u)
       # lowerUnits (if caseIgnorable u then pre else cased u) us"

text \<open>
  The case tables of Unicode beyond the repertoire are no part of the repository and
  are not written out: on a string with a code unit outside the repertoire the result
  of \<^verbatim>\<open>toLowerCase\<close> is taken from the parameter \<open>beyond\<close>.
\<close>

definition toLowerCase :: "(jsstring \<Rightarrow> jsstring) \<Rightarrow> jsstring \<Rightarrow> jsstring" where
  "toLowerCase beyond s = (if list_all inRepertoire s then lowerUnits False s else beyond s)"

text \<open>
  \<^verbatim>\<open>s.startsWith(t)\<close> compares \<open>t\<close> with the code units at the front of \<open>s\<close>;
  \<^verbatim>\<open>s.includes(t)\<close> (here \<open>includes_str\<close>) searches \<open>t\<close> at position 0, 1, ... of
  \<open>s\<close> and is true for the empty \<open>t\<close> at every position, also at the end of \<open>s\<close>.
\<close>

fun startsWith :: "jsstring \<Rightarrow> jsstring \<Rightarrow> bool" where
  "startsWith s [] = True"
| "startsWith [] (b # t) = False"
| "startsWith (a # s) (b # t) = (a = b \<and> startsWith s t)"

fun includes_str :: "jsstring \<Rightarrow> jsstring \<Rightarrow> bool" where
  "includes_str [] t = startsWith [] t"
| "includes_str (a # s) t = (startsWith (a # s) t \<or> includes_str s t)"

subsection \<open>Arrays\<close>

text \<open>
  \<^verbatim>\<open>Array.prototype.filter\<close> walks the array from index 0 and appends each element
  the callback accepts to the result array.
\<close>

fun filter_loop :: "('a \<Rightarrow> bool) \<Rightarrow> 'a list \<Rightarrow> 'a list \<Rightarrow> 'a list" where
  "filter_loop p [] acc = acc"
| "filter_loop p (x # xs) acc = filter_loop p xs (if p x then acc @ [x] else acc)"

definition filter_array :: "('a \<Rightarrow> bool) \<Rightarrow> 'a list \<Rightarrow> 'a list" where
  "filter_array p xs = filter_loop p xs []"

subsection \<open>Dashboard: state\<close>

text \<open>
  \<^verbatim>\<open>User\<close> comes from \<^verbatim>\<open>../types\<close>; the dashboard reads its fields \<^verbatim>\<open>name\<close> and
  \<^verbatim>\<open>city\<close>. The elements of \<^verbatim>\<open>topCities\<close> (from \<^verbatim>\<open>../data/mockData\<close>) are read at
  \<^verbatim>\<open>name\<close>, \<^verbatim>\<open>aqi\<close> and \<^verbatim>\<open>quality\<close>.
\<close>

record User =
  name :: jsstring
  city :: jsstring

record City =
  name :: jsstring
  aqi :: real
  quality :: jsstring

text \<open>
  The seven \<^verbatim>\<open>useState\<close> cells of \<^verbatim>\<open>Dashboard\<close>. \<^verbatim>\<open>AQIData\<close> is a type of
  \<^verbatim>\<open>../types\<close> whose values only \<^verbatim>\<open>getAQIData\<close> produces, hence the type parameter.
\<close>

record 'aqi Dashboard =
  activeView :: jsstring
  selectedCity :: jsstring
  aqiData :: 'aqi
  searchQuery :: jsstring
  showSearchResults :: bool
  isLoading :: bool
  targetView :: jsstring

text \<open>
  The initial state. \<^verbatim>\<open>getAQIData\<close> is imported from \<^verbatim>\<open>../data/mockData\<close> and is a
  parameter of the model: a function of the city name.
\<close>

definition Dashboard_init :: "(jsstring \<Rightarrow> 'aqi) \<Rightarrow> User \<Rightarrow> 'aqi Dashboard" where
  "Dashboard_init getAQIData user =
     \<lparr> activeView = units ''dashboard'',
       selectedCity = city user,
       aqiData = getAQIData (city user),
       searchQuery = [],
       showSearchResults = False,
       isLoading = False,
       targetView = units ''dashboard'' \<rparr>"

subsection \<open>Dashboard: handlers\<close>

definition handleCityChange ::
  "(jsstring \<Rightarrow> 'aqi) \<Rightarrow> jsstring \<Rightarrow> 'aqi Dashboard \<Rightarrow> 'aqi Dashboard" where
  "handleCityChange getAQIData c s =
     s\<lparr> selectedCity := c,
        aqiData := getAQIData c,
        searchQuery := [],
        showSearchResults := False \<rparr>"

text \<open>\<^verbatim>\<open>window.scrollTo\<close> touches no cell of the state and is left out.\<close>

definition handleViewChange :: "jsstring \<Rightarrow> 'aqi Dashboard \<Rightarrow> 'aqi Dashboard" where
  "handleViewChange view s =
     (if view \<noteq> activeView s
      then s\<lparr> targetView := view, isLoading := True \<rparr>
      else s)"

definition handleLoadingComplete :: "'aqi Dashboard \<Rightarrow> 'aqi Dashboard" where
  "handleLoadingComplete s = s\<lparr> activeView := targetView s, isLoading := False \<rparr>"

text \<open>The \<^verbatim>\<open>onChange\<close> and \<^verbatim>\<open>onFocus\<close> handlers of the search input.\<close>

definition searchOnChange :: "jsstring \<Rightarrow> 'aqi Dashboard \<Rightarrow> 'aqi Dashboard" where
  "searchOnChange v s = s\<lparr> searchQuery := v, showSearchResults := (length v > 0) \<rparr>"

definition searchOnFocus :: "'aqi Dashboard \<Rightarrow> 'aqi Dashboard" where
  "searchOnFocus s = s\<lparr> showSearchResults := (length (searchQuery s) > 0) \<rparr>"

text \<open>
  The derived list \<^verbatim>\<open>filteredCities\<close>, computed at each render; \<open>beyond\<close> is the
  parameter of \<open>toLowerCase\<close>.
\<close>

definition filteredCities ::
  "(jsstring \<Rightarrow> jsstring) \<Rightarrow> City list \<Rightarrow> jsstring \<Rightarrow> City list" where
  "filteredCities beyond topCities query =
     filter_array
       (\<lambda>c. includes_str (toLowerCase beyond (City.name c)) (toLowerCase beyond query))
       topCities"

text \<open>
  The search results dropdown is rendered under the guard
  \<^verbatim>\<open>showSearchResults && filteredCities.length > 0\<close>; \<open>searchResultsShown\<close> is the list of
  entries on the screen.
\<close>

definition searchResultsShown ::
  "(jsstring \<Rightarrow> jsstring) \<Rightarrow> City list \<Rightarrow> 'aqi Dashboard \<Rightarrow> City list" where
  "searchResultsShown beyond topCities s =
     (if showSearchResults s \<and> length (filteredCities beyond topCities (searchQuery s)) > 0
      then filteredCities beyond topCities (searchQuery s)
      else [])"

subsection \<open>Dashboard: events\<close>

text \<open>
  The user drives the dashboard through its handlers. A run applies a sequence of events
  to the initial state; every handler is taken as enabled in every state, which covers
  the states the rendered page can reach.
\<close>

datatype event =
    CityChange jsstring
  | ViewChange jsstring
  | LoadingComplete
  | SearchChange jsstring
  | SearchFocus

fun dispatch :: "(jsstring \<Rightarrow> 'aqi) \<Rightarrow> 'aqi Dashboard \<Rightarrow> event \<Rightarrow> 'aqi Dashboard" where
  "dispatch g s (CityChange c) = handleCityChange g c s"
| "dispatch g s (ViewChange v) = handleViewChange v s"
| "dispatch g s LoadingComplete = handleLoadingComplete s"
| "dispatch g s (SearchChange v) = searchOnChange v s"
| "dispatch g s SearchFocus = searchOnFocus s"

definition run :: "(jsstring \<Rightarrow> 'aqi) \<Rightarrow> User \<Rightarrow> event list \<Rightarrow> 'aqi Dashboard" where
  "run g user evs = foldl (dispatch g) (Dashboard_init g user) evs"

text \<open>
  The two states of the view transition controller, read off the cells:
  \<^verbatim>\<open>isLoading\<close> tells them apart.
\<close>

datatype viewState = Idle jsstring | Transitioning jsstring jsstring

definition viewStateOf :: "'aqi Dashboard \<Rightarrow> viewState" where
  "viewStateOf s =
     (if isLoading s then Transitioning (activeView s) (targetView s)
      else Idle (activeView s))"

subsection \<open>The specification's notion of a match\<close>

text \<open>
  The specification of the search filter speaks of a name that contains the query as a
  case-insensitive substring: the name has a stretch \<open>w\<close> that is equal to the query but
  for case. Two strings are equal but for case when their lower-case forms are equal.
\<close>

definition equalsIgnoreCase :: "(jsstring \<Rightarrow> jsstring) \<Rightarrow> jsstring \<Rightarrow> jsstring \<Rightarrow> bool" where
  "equalsIgnoreCase beyond w q = (toLowerCase beyond w = toLowerCase beyond q)"


text \<open>
  Letter by letter, below U+0100: two code units are the same letter when they are equal,
  or one is an upper-case letter and the other its lower-case form.
\<close>

definition sameLetter :: "codeUnit \<Rightarrow> codeUnit \<Rightarrow> bool" where
  "sameLetter a b =
     (a = b \<or> (isUpperLatin1 a \<and> b = a + 0x20) \<or> (isUpperLatin1 b \<and> a = b + 0x20))"

definition latin1 :: "jsstring \<Rightarrow> bool" where
  "latin1 s = list_all (\<lambda>u. u < 0x100) s"

subsection \<open>LeafletMap: data\<close>

text \<open>
  The interface \<^verbatim>\<open>CityData\<close>. A \<^verbatim>\<open>number\<close> is a \<^typ>\<open>real\<close>: the store keeps the
  numbers it is given and computes nothing with them.
\<close>

record CityData =
  name :: jsstring
  lat :: real
  lng :: real
  aqi :: real
  quality :: jsstring
  pm25 :: real
  pm10 :: real
  o3 :: real
  no2 :: real
  so2 :: real
  co :: real
  temperature :: real
  humidity :: real
  lastUpdated :: jsstring
  source :: jsstring

text \<open>
  What \<^verbatim>\<open>response.json()\<close> can resolve to, as far as \<^verbatim>\<open>fetchCitiesData\<close> tells values
  apart: \<^verbatim>\<open>null\<close>, on which \<^verbatim>\<open>data.length\<close> throws; an array of city records; and any
  other JSON value (an object, a number, a string, ...), on which \<^verbatim>\<open>data.length\<close> is
  \<^verbatim>\<open>undefined\<close> or a number and nothing throws. \<^verbatim>\<open>data\<close> has type \<^verbatim>\<open>any\<close>, so
  \<^verbatim>\<open>setCities(data)\<close> stores each of them.
\<close>

datatype payload = JNull | JCities "CityData list" | JOther

datatype body = NotJson | Json payload

text \<open>
  The outcome of one request: the promise of \<^verbatim>\<open>fetch\<close> rejects (no connection), or it
  resolves to a response with a status code and a body. \<^verbatim>\<open>fetch\<close> resolves for every
  status code.
\<close>

datatype fetch_outcome = Rejected | Response nat body

datatype error = NetworkError | SyntaxError | TypeError

text \<open>
  The four \<^verbatim>\<open>useState\<close> cells of \<^verbatim>\<open>LeafletMap\<close>; a \<^verbatim>\<open>Date\<close> is its number of
  milliseconds.
\<close>

record LeafletMap =
  cities :: payload
  loading :: bool
  lastUpdated :: nat
  hoveredCity :: "jsstring option"

text \<open>
  A session is the component together with two counters of the network: the requests
  issued so far by \<^verbatim>\<open>fetch\<close> and those not yet settled.
\<close>

record Session =
  ui :: LeafletMap
  requestsIssued :: nat
  requestsInFlight :: nat

subsection \<open>LeafletMap: fetching\<close>

text \<open>
  The array literal of the \<^verbatim>\<open>catch\<close> block; \<open>stamp\<close> is \<^verbatim>\<open>new Date().toISOString()\<close>,
  the five evaluations of one \<^verbatim>\<open>catch\<close> taken at the same reading of the clock.
\<close>

definition fallbackCities :: "jsstring \<Rightarrow> CityData list" where
  "fallbackCities stamp =
     [ \<lparr> CityData.name = units ''Delhi'', lat = 28.6139, lng = 77.2090, aqi = 168,
         quality = units ''Unhealthy'', pm25 = 101, pm10 = 134, o3 = 67, no2 = 50,
         so2 = 34,
         co = 17, temperature = 32, humidity = 65, lastUpdated = stamp,
         source = units ''Mock Data'' \<rparr>,
       \<lparr> CityData.name = units ''Mumbai'', lat = 19.0760, lng = 72.8777, aqi = 95,
         quality = units ''Moderate'', pm25 = 57, pm10 = 76, o3 = 38, no2 = 29, so2 = 19,
         co = 10, temperature = 28, humidity = 78, lastUpdated = stamp,
         source = units ''Mock Data'' \<rparr>,
       \<lparr> CityData.name = units ''Hyderabad'', lat = 17.3850, lng = 78.4867, aqi = 92,
         quality = units ''Moderate'', pm25 = 55, pm10 = 74, o3 = 37, no2 = 28, so2 = 18,
         co = 9, temperature = 30, humidity = 62, lastUpdated = stamp,
         source = units ''Mock Data'' \<rparr>,
       \<lparr> CityData.name = units ''Chennai'', lat = 13.0827, lng = 80.2707, aqi = 78,
         quality = units ''Moderate'', pm25 = 47, pm10 = 62, o3 = 31, no2 = 23, so2 = 16,
         co = 8, temperature = 35, humidity = 68, lastUpdated = stamp,
         source = units ''Mock Data'' \<rparr>,
       \<lparr> CityData.name = units ''Bengaluru'', lat = 12.9716, lng = 77.5946, aqi = 85,
         quality = units ''Moderate'', pm25 = 51, pm10 = 68, o3 = 34, no2 = 26, so2 = 17,
         co = 9, temperature = 26, humidity = 55, lastUpdated = stamp,
         source = units ''Mock Data'' \<rparr> ]"

text \<open>
  The \<^verbatim>\<open>try\<close> block, from the point where the request settles. It returns the
  exception thrown, if any, and the cells as the statements run so far have left them:
  \<^item> a rejected \<^verbatim>\<open>fetch\<close> throws before any setter runs;
  \<^item> \<^verbatim>\<open>response.json()\<close> throws a \<^verbatim>\<open>SyntaxError\<close> on a body that is not JSON;
  \<^item> the status code is never read;
  \<^item> \<^verbatim>\<open>setCities(data)\<close> and \<^verbatim>\<open>setLastUpdated(new Date())\<close> run, then the
    \<^verbatim>\<open>console.log\<close> reads \<^verbatim>\<open>data.length\<close>, which throws a \<^verbatim>\<open>TypeError\<close> on \<^verbatim>\<open>null\<close>.
\<close>

definition tryBlock :: "fetch_outcome \<Rightarrow> nat \<Rightarrow> LeafletMap \<Rightarrow> error option \<times> LeafletMap" where
  "tryBlock outcome now m =
     (case outcome of
        Rejected \<Rightarrow> (Some NetworkError, m)
      | Response status b \<Rightarrow>
          (case b of
             NotJson \<Rightarrow> (Some SyntaxError, m)
           | Json data \<Rightarrow>
               (let m1 = m\<lparr> cities := data \<rparr>;
                    m2 = m1\<lparr> LeafletMap.lastUpdated := now \<rparr>
                in case data of
                     JNull \<Rightarrow> (Some TypeError, m2)
                   | JCities cs \<Rightarrow> (None, m2)
                   | JOther \<Rightarrow> (None, m2))))"

definition catchBlock :: "jsstring \<Rightarrow> LeafletMap \<Rightarrow> error option \<times> LeafletMap" where
  "catchBlock stamp m = (None, m\<lparr> cities := JCities (fallbackCities stamp) \<rparr>)"

definition finallyBlock :: "LeafletMap \<Rightarrow> error option \<times> LeafletMap" where
  "finallyBlock m = (None, m\<lparr> loading := False \<rparr>)"

text \<open>
  \<^verbatim>\<open>try { ... } catch (error) { ... } finally { ... }\<close>: the \<^verbatim>\<open>catch\<close> block runs on
  an exception of the \<^verbatim>\<open>try\<close> block, the \<^verbatim>\<open>finally\<close> block runs always, and the
  statement completes with the exception of the \<^verbatim>\<open>finally\<close> block, else with the one
  left by \<^verbatim>\<open>try\<close> and \<^verbatim>\<open>catch\<close>.
\<close>

definition tryCatchFinally ::
  "fetch_outcome \<Rightarrow> nat \<Rightarrow> jsstring \<Rightarrow> LeafletMap \<Rightarrow> error option \<times> LeafletMap" where
  "tryCatchFinally outcome now stamp m =
     (let (e1, m1) = tryBlock outcome now m;
          (e2, m2) = (case e1 of None \<Rightarrow> (None, m1) | Some err \<Rightarrow> catchBlock stamp m1);
          (e3, m3) = finallyBlock m2
      in (case e3 of None \<Rightarrow> e2 | Some err \<Rightarrow> Some err, m3))"

text \<open>
  \<^verbatim>\<open>fetchCitiesData\<close> is an \<^verbatim>\<open>async\<close> function. Its first part runs at the call, up to
  the first \<^verbatim>\<open>await\<close>: \<^verbatim>\<open>setLoading(true)\<close> and the call of \<^verbatim>\<open>fetch\<close>, which issues
  the request. No condition stands before them.
\<close>

definition fetchCitiesData_start :: "Session \<Rightarrow> Session" where
  "fetchCitiesData_start s =
     s\<lparr> ui := (ui s)\<lparr> loading := True \<rparr>,
        requestsIssued := requestsIssued s + 1,
        requestsInFlight := requestsInFlight s + 1 \<rparr>"

text \<open>
  Its second part runs when the request settles; between the two \<^verbatim>\<open>await\<close>s no cell is
  written. The first component of the result is the exception with which the promise of
  \<^verbatim>\<open>fetchCitiesData\<close> rejects, if any.
\<close>

definition fetchCitiesData_settle ::
  "fetch_outcome \<Rightarrow> nat \<Rightarrow> jsstring \<Rightarrow> Session \<Rightarrow> error option \<times> Session" where
  "fetchCitiesData_settle outcome now stamp s =
     (let (e, m) = tryCatchFinally outcome now stamp (ui s)
      in (e, s\<lparr> ui := m, requestsInFlight := requestsInFlight s - 1 \<rparr>))"

text \<open>One call run through with nothing in between.\<close>

definition fetchCitiesData ::
  "fetch_outcome \<Rightarrow> nat \<Rightarrow> jsstring \<Rightarrow> Session \<Rightarrow> error option \<times> Session" where
  "fetchCitiesData outcome now stamp s =
     fetchCitiesData_settle outcome now stamp (fetchCitiesData_start s)"

subsection \<open>LeafletMap: the callers of \<open>fetchCitiesData\<close>\<close>

text \<open>
  The component starts with no cities and \<^verbatim>\<open>loading\<close> true; its mount effect calls
  \<^verbatim>\<open>fetchCitiesData\<close> once and registers it with \<^verbatim>\<open>setInterval\<close> for every five
  minutes.
\<close>

definition LeafletMap_init :: "nat \<Rightarrow> LeafletMap" where
  "LeafletMap_init t0 =
     \<lparr> cities = JCities [], loading = True, LeafletMap.lastUpdated = t0, hoveredCity = None \<rparr>"

definition mount :: "nat \<Rightarrow> Session" where
  "mount t0 =
     fetchCitiesData_start \<lparr> ui = LeafletMap_init t0, requestsIssued = 0, requestsInFlight = 0 \<rparr>"

definition intervalTick :: "Session \<Rightarrow> Session" where
  "intervalTick s = fetchCitiesData_start s"

text \<open>
  The Refresh button carries \<^verbatim>\<open>disabled={loading}\<close> (and while \<^verbatim>\<open>loading\<close> the component
  returns the spinner, without the button): a click reaches \<^verbatim>\<open>fetchCitiesData\<close> only
  when \<^verbatim>\<open>loading\<close> is false.
\<close>

definition refreshClick :: "Session \<Rightarrow> Session" where
  "refreshClick s = (if loading (ui s) then s else fetchCitiesData_start s)"

subsection \<open>Inputs of the examples\<close>

definition Delhi :: City where
  "Delhi = \<lparr> City.name = units ''Delhi'', aqi = 168, quality = units ''Unhealthy'' \<rparr>"

definition Mumbai :: City where
  "Mumbai = \<lparr> City.name = units ''Mumbai'', aqi = 95, quality = units ''Moderate'' \<rparr>"

definition asha :: User where
  "asha = \<lparr> User.name = units ''Asha'', city = units ''Delhi'' \<rparr>"




text \<open>A stand-in for \<^verbatim>\<open>getAQIData\<close> in the examples: the data of a city is its name.\<close>

definition aqiOfName :: "jsstring \<Rightarrow> jsstring" where
  "aqiOfName c = c"

section \<open>Properties of the dashboard\<close>

subsection \<open>Literals\<close>

lemma of_char_nat_less: "(of_char c :: nat) < 256"
  by (simp add: of_char_def)

lemma unat_of_char: "unat (of_char c :: codeUnit) = of_char c"
proof -
  have "unat (of_nat (of_char c) :: codeUnit) = of_char c mod 2 ^ 16"
    by (simp add: unat_of_nat)
  moreover have "(of_char c :: nat) < 65536"
    using of_char_nat_less[of c] by linarith
  then have "(of_char c :: nat) mod 2 ^ 16 = of_char c"
    by simp
  ultimately show ?thesis
    by (simp only: of_nat_of_char)
qed

lemma of_char_word_inject: "((of_char a :: codeUnit) = of_char b) = (a = b)"
proof
  assume "(of_char a :: codeUnit) = of_char b"
  then have "unat (of_char a :: codeUnit) = unat (of_char b :: codeUnit)"
    by simp
  then have "(of_char a :: nat) = of_char b"
    by (simp only: unat_of_char)
  then show "a = b"
    by simp
qed simp

text \<open>Different literals have different code units.\<close>

lemma units_eq_iff [simp]: "(units a = units b) = (a = b)"
  by (simp add: units_def inj_map_eq_map inj_def of_char_word_inject)

lemma units_eq_Nil [simp]: "(units a = []) = (a = [])"
  by (simp add: units_def)

subsection \<open>Runs and their invariants\<close>

lemma run_Nil: "run g user [] = Dashboard_init g user"
  by (simp add: run_def)

lemma run_snoc: "run g user (evs @ [e]) = dispatch g (run g user evs) e"
  by (simp add: run_def)

text \<open>The results flag is up exactly when the query is not empty.\<close>

lemma search_flag_invariant:
  "showSearchResults (run g user evs) = (searchQuery (run g user evs) \<noteq> [])"
proof (induction evs rule: rev_induct)
  case Nil
  show ?case by (simp add: run_Nil Dashboard_init_def)
next
  case (snoc e evs)
  then show ?case
    by (cases e)
       (simp_all add: run_snoc handleCityChange_def handleViewChange_def
          handleLoadingComplete_def searchOnChange_def searchOnFocus_def)
qed

text \<open>Outside a transition the pending target is the active view.\<close>

lemma target_invariant:
  "isLoading (run g user evs) \<or> targetView (run g user evs) = activeView (run g user evs)"
proof (induction evs rule: rev_induct)
  case Nil
  show ?case by (simp add: run_Nil Dashboard_init_def)
next
  case (snoc e evs)
  then show ?case
    by (cases e)
       (auto simp add: run_snoc handleCityChange_def handleViewChange_def
          handleLoadingComplete_def searchOnChange_def searchOnFocus_def)
qed

lemma aqi_invariant:
  "aqiData (run g user evs) = g (selectedCity (run g user evs))"
proof (induction evs rule: rev_induct)
  case Nil
  show ?case by (simp add: run_Nil Dashboard_init_def)
next
  case (snoc e evs)
  then show ?case
    by (cases e)
       (simp_all add: run_snoc handleCityChange_def handleViewChange_def
          handleLoadingComplete_def searchOnChange_def searchOnFocus_def)
qed

lemma transitioning_after_request:
  "viewStateOf (run aqiOfName asha [ViewChange (units ''analytics'')])
     = Transitioning (units ''dashboard'') (units ''analytics'')"
  by (simp add: run_def viewStateOf_def Dashboard_init_def handleViewChange_def)

subsection \<open>Strings and arrays\<close>



lemma includes_str_Nil: "includes_str s []"
  by (cases s) simp_all

lemma filter_loop_append: "filter_loop p xs acc = acc @ filter p xs"
  by (induction xs arbitrary: acc) simp_all

lemma filter_array_filter: "filter_array p xs = filter p xs"
  by (simp add: filter_array_def filter_loop_append)


subsection \<open>Lower case below U+0100\<close>


lemma latin1_inRepertoire: "latin1 s \<Longrightarrow> list_all inRepertoire s"
  by (induction s) (simp_all add: latin1_def inRepertoire_def)

text \<open>Without a capital sigma, \<open>lowerUnits\<close> maps code unit by code unit.\<close>

lemma lowerUnits_latin1: "latin1 s \<Longrightarrow> lowerUnits pre s = map lowerUnit s"
proof (induction s arbitrary: pre)
  case Nil
  show ?case by simp
next
  case (Cons u us)
  from Cons.prems have u: "u < 0x100" and us: "latin1 us"
    by (simp_all add: latin1_def)
  from u have "u \<noteq> 0x3A3"
    by auto
  with Cons.IH[OF us] show ?case
    by simp
qed

lemma toLowerCase_latin1: "latin1 s \<Longrightarrow> toLowerCase beyond s = map lowerUnit s"
  by (simp add: toLowerCase_def latin1_inRepertoire lowerUnits_latin1)

lemma toLowerCase_Nil: "toLowerCase beyond [] = []"
  by (simp add: toLowerCase_def)


text \<open>
  Letter by letter: below U+0100 two strings are equal but for case exactly when they
  have the same letters at the same places.
\<close>

lemma isUpperLatin1_unat:
  "isUpperLatin1 u =
     ((65 \<le> unat u \<and> unat u \<le> 90) \<or> (192 \<le> unat u \<and> unat u \<le> 222 \<and> unat u \<noteq> 215))"
  by (simp add: isUpperLatin1_def word_le_nat_alt word_unat_eq_iff)

lemma below_unat: "(u < (0x100 :: codeUnit)) = (unat u < 256)"
  by (simp add: word_less_nat_alt)

lemma unat_plus_32: "u < (0x100 :: codeUnit) \<Longrightarrow> unat (u + 0x20) = unat u + 32"
  by (simp add: unat_word_ariths below_unat)

lemma plus_32_eq:
  "a < (0x100 :: codeUnit) \<Longrightarrow> (b = a + 0x20) = (unat b = unat a + 32)"
  by (simp add: word_unat_eq_iff unat_plus_32)

lemma lowerUnit_unat:
  assumes "u < 0x100"
  shows "unat (lowerUnit u) = (if isUpperLatin1 u then unat u + 32 else unat u)"
proof -
  from assms have "u \<noteq> 0x3A3" by auto
  with assms show ?thesis
    by (simp add: lowerUnit_def unat_plus_32)
qed

lemma lowerUnit_eq_sameLetter:
  assumes a: "a < 0x100" and b: "b < 0x100"
  shows "(lowerUnit a = lowerUnit b) = sameLetter a b"
proof -
  have "(lowerUnit a = lowerUnit b) = (unat (lowerUnit a) = unat (lowerUnit b))"
    by (simp only: word_unat_eq_iff)
  also have "\<dots> = sameLetter a b"
    unfolding lowerUnit_unat[OF a] lowerUnit_unat[OF b] sameLetter_def
      plus_32_eq[OF a] plus_32_eq[OF b] isUpperLatin1_unat word_unat_eq_iff[of a b]
    using a b unfolding below_unat
    by auto
  finally show ?thesis .
qed

lemma map_lowerUnit_letters:
  "latin1 w \<Longrightarrow> latin1 q \<Longrightarrow> (map lowerUnit w = map lowerUnit q) = list_all2 sameLetter w q"
proof (induction w arbitrary: q)
  case Nil
  show ?case by auto
next
  case (Cons a w)
  show ?case
  proof (cases q)
    case Nil
    then show ?thesis by simp
  next
    case (Cons b q')
    with Cons.prems have "a < 0x100" "b < 0x100" "latin1 w" "latin1 q'"
      by (simp_all add: latin1_def)
    with Cons.IH[of q'] Cons show ?thesis
      by (simp add: lowerUnit_eq_sameLetter)
  qed
qed

lemma equalsIgnoreCase_letters:
  "latin1 w \<Longrightarrow> latin1 q \<Longrightarrow> equalsIgnoreCase beyond w q = list_all2 sameLetter w q"
  by (simp add: equalsIgnoreCase_def toLowerCase_latin1 map_lowerUnit_letters)

lemma filteredCities_empty_query: "filteredCities beyond D [] = D"
  by (simp add: filteredCities_def filter_array_filter toLowerCase_Nil includes_str_Nil)





subsection \<open>The search filter\<close>

text \<open>
  C1, as the code has it. For every dataset \<open>D\<close>, \<open>filteredCities\<close> with the empty query
  is \<open>D\<close> itself, since every name includes the empty string. An empty query still shows
  no city: the dropdown is rendered under \<open>showSearchResults\<close>, and in every state a run
  of the dashboard reaches with an empty query the list on the screen is empty.
\<close>

theorem empty_query_shows_nothing:
  "filteredCities beyond D [] = D \<and>
   (searchQuery (run g user evs) = [] \<longrightarrow>
      searchResultsShown beyond D (run g user evs) = [])"
  using search_flag_invariant[of g user evs]
  by (simp add: filteredCities_empty_query searchResultsShown_def)

text \<open>An instance: the user types \<open>de\<close> and then picks Delhi, which empties the query.\<close>

theorem empty_query_shows_nothing_witness:
  "searchQuery (run aqiOfName asha [SearchChange (units ''de''), CityChange (units ''Delhi'')])
     = [] \<and>
   filteredCities id [Delhi, Mumbai] [] = [Delhi, Mumbai] \<and>
   searchResultsShown id [Delhi, Mumbai]
     (run aqiOfName asha [SearchChange (units ''de''), CityChange (units ''Delhi'')]) = []"
  using empty_query_shows_nothing[of id "[Delhi, Mumbai]" aqiOfName asha
          "[SearchChange (units ''de''), CityChange (units ''Delhi'')]"]
  by (simp add: run_def handleCityChange_def)

text \<open>
  The filter itself does not return the empty list on the empty query: on the dataset
  of Delhi and Mumbai it returns both.
\<close>

theorem empty_query_counterexample:
  "filteredCities id [Delhi, Mumbai] [] \<noteq> []"
  by (simp add: filteredCities_empty_query)




subsection \<open>The selection coordinator\<close>

text \<open>
  C4. For every string \<open>x\<close> and every state, \<open>handleCityChange\<close> (the \<open>select\<close> of the
  specification) stores \<open>x\<close> as the selected city; no dataset is consulted, so the name
  may be absent from every dataset.
\<close>

theorem select_sets_current:
  "selectedCity (handleCityChange getAQIData x s) = x"
  by (simp add: handleCityChange_def)

text \<open>
  C5. After \<open>handleCityChange\<close> the search query is the empty string and the
  search-results-visible flag is false, whatever they were before.
\<close>

theorem select_clears_search:
  "searchQuery (handleCityChange getAQIData x s) = [] \<and>
   showSearchResults (handleCityChange getAQIData x s) = False"
  by (simp add: handleCityChange_def)

text \<open>
  C10. \<open>aqiData\<close> is \<open>getAQIData\<close> of the selected city in the initial state, after every
  \<open>handleCityChange\<close> from any state, and in every state a run reaches. The dashboard has
  no cell for the fetched dataset; \<open>aqiData\<close> is written from \<open>getAQIData\<close> alone.
\<close>

theorem aqiData_follows_selectedCity:
  "aqiData (Dashboard_init g user) = g (selectedCity (Dashboard_init g user)) \<and>
   aqiData (handleCityChange g c s) = g (selectedCity (handleCityChange g c s)) \<and>
   aqiData (run g user evs) = g (selectedCity (run g user evs))"
  using aqi_invariant[of g user evs]
  by (simp add: Dashboard_init_def handleCityChange_def)

subsection \<open>The view transition controller\<close>

text \<open>
  C7. In state \<open>Idle a\<close>, \<open>handleViewChange\<close> (the \<open>requestView\<close> of the specification)
  with the active view \<open>a\<close> leaves the state as it is, and with a target \<open>t\<close> other than
  \<open>a\<close> moves to \<open>Transitioning a t\<close>.
\<close>

theorem requestView_from_Idle:
  assumes "viewStateOf s = Idle a"
  shows "handleViewChange a s = s \<and>
         (t \<noteq> a \<longrightarrow> viewStateOf (handleViewChange t s) = Transitioning a t)"
  using assms by (simp add: viewStateOf_def handleViewChange_def split: if_splits)

theorem requestView_from_Idle_witness:
  "viewStateOf (Dashboard_init aqiOfName asha) = Idle (units ''dashboard'') \<and>
   units ''analytics'' \<noteq> units ''dashboard'' \<and>
   handleViewChange (units ''dashboard'') (Dashboard_init aqiOfName asha)
     = Dashboard_init aqiOfName asha \<and>
   viewStateOf (handleViewChange (units ''analytics'') (Dashboard_init aqiOfName asha))
     = Transitioning (units ''dashboard'') (units ''analytics'')"
proof -
  have h: "viewStateOf (Dashboard_init aqiOfName asha) = Idle (units ''dashboard'')"
    by (simp add: viewStateOf_def Dashboard_init_def)
  show ?thesis
    using h requestView_from_Idle[OF h, of "units ''analytics''"] by simp
qed

text \<open>
  C8. In a state \<open>Transitioning a t\<close>, \<open>handleLoadingComplete\<close> (the \<open>completeTransition\<close>
  of the specification) moves to \<open>Idle t\<close>; in a state \<open>Idle a\<close> it leaves every cell
  as it is. The states are those a run of the dashboard reaches, where an idle state
  has its pending target equal to the active view.
\<close>

theorem completeTransition_moves_or_ignores:
  "(viewStateOf (run g user evs) = Transitioning a t \<longrightarrow>
      viewStateOf (handleLoadingComplete (run g user evs)) = Idle t) \<and>
   (viewStateOf (run g user evs) = Idle a \<longrightarrow>
      handleLoadingComplete (run g user evs) = run g user evs)"
  using target_invariant[of g user evs]
  by (auto simp add: viewStateOf_def handleLoadingComplete_def split: if_splits)

theorem completeTransition_moves_or_ignores_witness:
  "viewStateOf (run aqiOfName asha [ViewChange (units ''analytics'')])
     = Transitioning (units ''dashboard'') (units ''analytics'') \<and>
   viewStateOf (handleLoadingComplete (run aqiOfName asha [ViewChange (units ''analytics'')]))
     = Idle (units ''analytics'') \<and>
   viewStateOf (run aqiOfName asha [ViewChange (units ''analytics''), LoadingComplete])
     = Idle (units ''analytics'') \<and>
   handleLoadingComplete
       (run aqiOfName asha [ViewChange (units ''analytics''), LoadingComplete])
     = run aqiOfName asha [ViewChange (units ''analytics''), LoadingComplete]"
proof -
  have h: "viewStateOf (run aqiOfName asha [ViewChange (units ''analytics''), LoadingComplete])
             = Idle (units ''analytics'')"
    by (simp add: run_def viewStateOf_def Dashboard_init_def handleViewChange_def
          handleLoadingComplete_def)
  show ?thesis
    using transitioning_after_request h
      completeTransition_moves_or_ignores[of aqiOfName asha "[ViewChange (units ''analytics'')]"
        "units ''dashboard''" "units ''analytics''"]
      completeTransition_moves_or_ignores[of aqiOfName asha
        "[ViewChange (units ''analytics''), LoadingComplete]" "units ''analytics''"
        "units ''analytics''"]
    by simp
qed

text \<open>
  C9. In a state \<open>Transitioning a t0\<close>, \<open>handleViewChange\<close> with a target \<open>t\<close> other than
  \<open>a\<close> overwrites the pending target: the state becomes \<open>Transitioning a t\<close>. With the
  target \<open>a\<close> the call changes nothing and the pending target \<open>t0\<close> stays.
\<close>

theorem requestView_while_Transitioning:
  assumes "viewStateOf s = Transitioning a t0"
  shows "(t \<noteq> a \<longrightarrow> viewStateOf (handleViewChange t s) = Transitioning a t) \<and>
         handleViewChange a s = s \<and>
         viewStateOf (handleViewChange a s) = Transitioning a t0"
  using assms by (simp add: viewStateOf_def handleViewChange_def split: if_splits)

theorem requestView_while_Transitioning_witness:
  "viewStateOf (run aqiOfName asha [ViewChange (units ''analytics'')])
     = Transitioning (units ''dashboard'') (units ''analytics'') \<and>
   units ''weather'' \<noteq> units ''dashboard'' \<and>
   viewStateOf (handleViewChange (units ''weather'')
       (run aqiOfName asha [ViewChange (units ''analytics'')]))
     = Transitioning (units ''dashboard'') (units ''weather'') \<and>
   viewStateOf (handleViewChange (units ''dashboard'')
       (run aqiOfName asha [ViewChange (units ''analytics'')]))
     = Transitioning (units ''dashboard'') (units ''analytics'')"
  using transitioning_after_request
    requestView_while_Transitioning[OF transitioning_after_request, of "units ''weather''"]
  by simp

section \<open>Properties of the city data store\<close>

lemma fallbackCities_sources:
  "map CityData.source (fallbackCities stamp)
     = [units ''Mock Data'', units ''Mock Data'', units ''Mock Data'',
        units ''Mock Data'', units ''Mock Data'']"
  by (simp add: fallbackCities_def)

lemma fallbackCities_fixed:
  "map (\<lambda>c. c\<lparr> CityData.lastUpdated := [] \<rparr>) (fallbackCities stamp) = fallbackCities []"
  by (simp add: fallbackCities_def)

text \<open>The three outcomes on which the \<^verbatim>\<open>try\<close> block throws.\<close>

lemma tryBlock_throws:
  "outcome = Rejected \<or> outcome = Response status NotJson
     \<or> outcome = Response status (Json JNull)
   \<Longrightarrow> fst (tryBlock outcome now m) \<noteq> None"
  by (auto simp add: tryBlock_def)

lemma settle_thrown:
  assumes "fst (tryBlock outcome now (ui s)) \<noteq> None"
  shows "fst (fetchCitiesData_settle outcome now stamp s) = None \<and>
         cities (ui (snd (fetchCitiesData_settle outcome now stamp s)))
           = JCities (fallbackCities stamp) \<and>
         loading (ui (snd (fetchCitiesData_settle outcome now stamp s))) = False"
  using assms
  by (auto simp add: fetchCitiesData_settle_def tryCatchFinally_def catchBlock_def
        finallyBlock_def split: prod.splits option.splits)

text \<open>
  C2, as the code has it. Whenever the request is rejected, the body of the response is
  not JSON, or the body is \<^verbatim>\<open>null\<close>, \<open>fetchCitiesData\<close> completes without an exception,
  \<open>loading\<close> is false, and the dataset is the built-in fallback set: five records, not
  empty, the same at every call but for \<open>lastUpdated\<close>, each with the source
  \<open>Mock Data\<close>. The status code of a response decides nothing.
\<close>

theorem refresh_failure_fallback:
  assumes "outcome = Rejected \<or> outcome = Response status NotJson
           \<or> outcome = Response status (Json JNull)"
  shows "fst (fetchCitiesData outcome now stamp s) = None \<and>
         cities (ui (snd (fetchCitiesData outcome now stamp s)))
           = JCities (fallbackCities stamp) \<and>
         loading (ui (snd (fetchCitiesData outcome now stamp s))) = False \<and>
         fallbackCities stamp \<noteq> [] \<and>
         list_all (\<lambda>c. CityData.source c = units ''Mock Data'') (fallbackCities stamp) \<and>
         map (\<lambda>c. c\<lparr> CityData.lastUpdated := [] \<rparr>) (fallbackCities stamp)
           = fallbackCities []"
proof -
  have thrown: "fst (tryBlock outcome now (ui (fetchCitiesData_start s))) \<noteq> None"
    using assms by (rule tryBlock_throws)
  have "fallbackCities stamp \<noteq> []"
    by (simp add: fallbackCities_def)
  moreover have "list_all (\<lambda>c. CityData.source c = units ''Mock Data'') (fallbackCities stamp)"
    by (simp add: fallbackCities_def)
  ultimately show ?thesis
    using settle_thrown[OF thrown, of stamp] fallbackCities_fixed[of stamp]
    by (simp add: fetchCitiesData_def)
qed

theorem refresh_failure_fallback_witness:
  "fst (fetchCitiesData Rejected 1000 (units ''2024-01-01T00:00:00.000Z'') (mount 0)) = None \<and>
   cities (ui (snd (fetchCitiesData (Response 500 NotJson) 1000
       (units ''2024-01-01T00:00:00.000Z'') (mount 0))))
     = JCities (fallbackCities (units ''2024-01-01T00:00:00.000Z'')) \<and>
   cities (ui (snd (fetchCitiesData (Response 200 (Json JNull)) 1000
       (units ''2024-01-01T00:00:00.000Z'') (mount 0))))
     = JCities (fallbackCities (units ''2024-01-01T00:00:00.000Z''))"
  using
    refresh_failure_fallback[of Rejected 500 1000 "units ''2024-01-01T00:00:00.000Z''" "mount 0"]
    refresh_failure_fallback[of "Response 500 NotJson" 500 1000
      "units ''2024-01-01T00:00:00.000Z''" "mount 0"]
    refresh_failure_fallback[of "Response 200 (Json JNull)" 200 1000
      "units ''2024-01-01T00:00:00.000Z''" "mount 0"]
  by simp

text \<open>
  After a rejected request every record of the dataset has the source \<open>Mock Data\<close>, not
  \<open>fallback\<close>; a response with status 500 and the body \<^verbatim>\<open>[]\<close> leaves the dataset empty;
  a body that is JSON but no array is stored as it is.
\<close>

theorem refresh_failure_counterexample:
  "cities (ui (snd (fetchCitiesData Rejected 1000 [] (mount 0))))
     = JCities (fallbackCities []) \<and>
   map CityData.source (fallbackCities [])
     = [units ''Mock Data'', units ''Mock Data'', units ''Mock Data'',
        units ''Mock Data'', units ''Mock Data''] \<and>
   \<not> list_all (\<lambda>c. CityData.source c = units ''fallback'') (fallbackCities []) \<and>
   cities (ui (snd (fetchCitiesData (Response 500 (Json (JCities []))) 1000 [] (mount 0))))
     = JCities [] \<and>
   cities (ui (snd (fetchCitiesData (Response 200 (Json JOther)) 1000 [] (mount 0))))
     = JOther"
  by (simp add: fallbackCities_sources)
     (simp add: fetchCitiesData_def fetchCitiesData_settle_def fetchCitiesData_start_def
        tryCatchFinally_def tryBlock_def catchBlock_def finallyBlock_def mount_def
        fallbackCities_def)

text \<open>
  C3, as the code has it. The only guard is on the Refresh button: a click while
  \<open>loading\<close> is true changes nothing and issues no request, and a click while it is false
  issues one. \<open>fetchCitiesData\<close> itself looks at no flag: every call of it, and so every
  tick of the polling interval, issues one more request, whatever is in flight.
\<close>

theorem refresh_guard_is_the_button:
  "(loading (ui s) \<longrightarrow> refreshClick s = s) \<and>
   (\<not> loading (ui s) \<longrightarrow> requestsIssued (refreshClick s) = requestsIssued s + 1) \<and>
   requestsIssued (intervalTick s) = requestsIssued s + 1 \<and>
   requestsIssued (fetchCitiesData_start s) = requestsIssued s + 1"
  by (simp add: refreshClick_def intervalTick_def fetchCitiesData_start_def)

theorem refresh_guard_is_the_button_witness:
  "loading (ui (mount 0)) \<and> refreshClick (mount 0) = mount 0 \<and>
   \<not> loading (ui (snd (fetchCitiesData_settle Rejected 1000 [] (mount 0)))) \<and>
   requestsIssued (refreshClick (snd (fetchCitiesData_settle Rejected 1000 [] (mount 0)))) = 2"
proof -
  have h1: "loading (ui (mount 0))"
    by (simp add: mount_def fetchCitiesData_start_def)
  have h2: "\<not> loading (ui (snd (fetchCitiesData_settle Rejected 1000 [] (mount 0))))"
    by (simp add: fetchCitiesData_settle_def tryCatchFinally_def tryBlock_def catchBlock_def
          finallyBlock_def)
  have h3: "requestsIssued (snd (fetchCitiesData_settle Rejected 1000 [] (mount 0))) = 1"
    by (simp add: fetchCitiesData_settle_def tryCatchFinally_def tryBlock_def catchBlock_def
          finallyBlock_def mount_def fetchCitiesData_start_def)
  show ?thesis
    using h1 h2 h3 refresh_guard_is_the_button[of "mount 0"]
      refresh_guard_is_the_button[of "snd (fetchCitiesData_settle Rejected 1000 [] (mount 0))"]
    by simp
qed

text \<open>
  The request of the mount is in flight when the interval ticks: the tick issues a
  second request, and two are in flight.
\<close>

theorem concurrent_refresh_counterexample:
  "requestsInFlight (mount 0) = 1 \<and> requestsIssued (mount 0) = 1 \<and>
   requestsInFlight (intervalTick (mount 0)) = 2 \<and>
   requestsIssued (intervalTick (mount 0)) = 2 \<and>
   requestsIssued (intervalTick (mount 0)) \<noteq> requestsIssued (mount 0)"
  by (simp add: mount_def intervalTick_def fetchCitiesData_start_def)

end
